theory Spec2Isabelle
  imports Complex_Main
begin

section \<open>Data model\<close>

text \<open>
  A naive \<^verbatim>\<open>datetime\<close> is a point on the time line, counted in microseconds (the
  resolution of Python's \<^verbatim>\<open>datetime\<close>); a \<^verbatim>\<open>timedelta\<close> is a difference of two such
  points. Durations converted to hours or minutes are Python floats in the source; here they
  are exact rationals.
\<close>

type_synonym datetime = int

definition us_per_minute :: int where
  "us_per_minute = 60000000"

definition us_per_hour :: int where
  "us_per_hour = 3600000000"

definition us_per_day :: int where
  "us_per_day = 86400000000"

record time_window =
  earliest_start :: datetime
  latest_end :: datetime
  exact_start_time :: "datetime option"
  exact_end_time :: "datetime option"

record location =
  city :: string
  specific_location :: "string option"
  full_address :: "string option"

datatype event_class =
  TaxiEvent | FlightEvent | RailwayEvent | FuelEvent | HotelEvent | DailyCheckInEvent

text \<open>
  One record for every trajectory event. An attribute that a class does not carry, or that
  is \<^verbatim>\<open>None\<close>, is \<open>None\<close> here (the rules read such attributes with
  \<^verbatim>\<open>getattr(event, name, None)\<close>); the names of the hotel and of the guest are empty on
  events that are not hotel stays.
\<close>

record event =
  event_id :: string
  user_id :: string
  user_name :: string
  department :: string
  event_class :: event_class
  time_window :: time_window
  location :: "location option"
  from_location :: "location option"
  to_location :: "location option"
  departure_location :: "location option"
  arrival_location :: "location option"
  amount :: rat
  is_self_paid :: bool
  hotel_name :: string
  guest_name :: string

fun class_name :: "event_class \<Rightarrow> string" where
  "class_name TaxiEvent = ''TaxiEvent''"
| "class_name FlightEvent = ''FlightEvent''"
| "class_name RailwayEvent = ''RailwayEvent''"
| "class_name FuelEvent = ''FuelEvent''"
| "class_name HotelEvent = ''HotelEvent''"
| "class_name DailyCheckInEvent = ''DailyCheckInEvent''"

text \<open>\<^verbatim>\<open>event.__class__.__name__.replace("Event", "")\<close>\<close>

fun short_class_name :: "event_class \<Rightarrow> string" where
  "short_class_name TaxiEvent = ''Taxi''"
| "short_class_name FlightEvent = ''Flight''"
| "short_class_name RailwayEvent = ''Railway''"
| "short_class_name FuelEvent = ''Fuel''"
| "short_class_name HotelEvent = ''Hotel''"
| "short_class_name DailyCheckInEvent = ''DailyCheckIn''"

text \<open>
  The values stored in a finding. A finding is a Python dict with string keys, kept here as
  an association list in the order the source writes the keys. Times that the source
  formats with \<^verbatim>\<open>strftime\<close> are kept as times. \<open>VRef\<close> is a reference to an object of the
  store, where a detection is followed through its writes.
\<close>

datatype pyval =
  VNone
| VStr string
| VTime datetime
| VNum rat
| VInt int
| VLoc "location option"
| VRef nat
| VInf
| VList "pyval list"
| VDict "(string \<times> pyval) list"

type_synonym finding = "(string \<times> pyval) list"

text \<open>The context is a dict of named numeric settings; \<^verbatim>\<open>context.get(key, default)\<close>.\<close>

type_synonym rule_context = "string \<rightharpoonup> rat"

definition context_get :: "rule_context \<Rightarrow> string \<Rightarrow> rat \<Rightarrow> rat" where
  "context_get ctx key dflt = (case ctx key of Some v \<Rightarrow> v | None \<Rightarrow> dflt)"

datatype py_error = AttributeError | ZeroDivisionError | IndexError | TypeError | ValueError

datatype time_unit = Minutes | Hours | Days

fun unit_us :: "time_unit \<Rightarrow> int" where
  "unit_us Minutes = us_per_minute"
| "unit_us Hours = us_per_hour"
| "unit_us Days = us_per_day"

text \<open>
  Modelled from the spec: \<^verbatim>\<open>rule.time_difference(time1, time2, unit)\<close>, a method of the rule
  object built by \<^verbatim>\<open>expensecbr.fde\<close>, which is not among the sources. It is the signed
  duration from the first time to the second, converted to the unit asked for (the
  unit-convertible duration of section 4.1); the callers rely on this sign
  (\<^verbatim>\<open>stay_duration = rule.time_difference(earliest_start, latest_end, unit="days")\<close>).
\<close>

definition time_difference :: "datetime \<Rightarrow> datetime \<Rightarrow> time_unit \<Rightarrow> rat" where
  "time_difference time1 time2 u = of_int (time2 - time1) / of_int (unit_us u)"

text \<open>\<^verbatim>\<open>x or y\<close> on an optional datetime: a datetime is always truthy, \<^verbatim>\<open>None\<close> is not.\<close>

definition py_or :: "'a option \<Rightarrow> 'a \<Rightarrow> 'a" where
  "py_or x y = (case x of Some v \<Rightarrow> v | None \<Rightarrow> y)"

text \<open>Python's \<^verbatim>\<open>round\<close>: to the nearest integer, a tie to the even one.\<close>

definition py_round :: "rat \<Rightarrow> int" where
  "py_round q =
     (let f = \<lfloor>q\<rfloor>; d = q - of_int f
      in if d < 1 / 2 then f else if 1 / 2 < d then f + 1 else if even f then f else f + 1)"

text \<open>
  The grouping idiom of every rule:
  \<^verbatim>\<open>if key not in d: d[key] = []\<close> followed by \<^verbatim>\<open>d[key].append(x)\<close>.
  A dict keeps its keys in the order of first insertion.
\<close>

fun dict_append :: "('k \<times> 'a list) list \<Rightarrow> 'k \<Rightarrow> 'a \<Rightarrow> ('k \<times> 'a list) list" where
  "dict_append [] k v = [(k, [v])]"
| "dict_append ((k', vs) # d) k v =
     (if k' = k then (k', vs @ [v]) # d else (k', vs) # dict_append d k v)"

definition group_by_key :: "('a \<Rightarrow> 'k) \<Rightarrow> 'a list \<Rightarrow> ('k \<times> 'a list) list" where
  "group_by_key f xs = foldl (\<lambda>d x. dict_append d (f x) x) [] xs"

text \<open>
  The pair loop \<^verbatim>\<open>for i in range(len(xs)): for j in range(i + 1, len(xs))\<close>, as the list of
  the pairs \<open>(xs[i], xs[j])\<close> in the order the loop visits them.
\<close>

fun pairs :: "'a list \<Rightarrow> ('a \<times> 'a) list" where
  "pairs [] = []"
| "pairs (x # xs) = map (Pair x) xs @ pairs xs"

section \<open>Effective start and end of a time window\<close>

text \<open>
  The specification's words: the effective start is the exact start time if present, else
  the earliest start; the effective end is the exact end time if present, else the latest
  end.
\<close>

definition effective_start :: "time_window \<Rightarrow> datetime" where
  "effective_start w = (if exact_start_time w \<noteq> None then the (exact_start_time w) else earliest_start w)"

definition effective_end :: "time_window \<Rightarrow> datetime" where
  "effective_end w = (if exact_end_time w \<noteq> None then the (exact_end_time w) else latest_end w)"

section \<open>fd\_multi\_transport\_same\_route\_time\_nofunc.py\<close>

record route =
  route_event_id :: string
  route_event :: event
  route_from_city :: string
  route_to_city :: string
  route_start_time :: datetime
  route_end_time :: datetime
  route_transport_type :: string

text \<open>\<^verbatim>\<open>isinstance(e, (TaxiEvent, FlightEvent, RailwayEvent))\<close>\<close>

definition is_taxi_flight_railway :: "event \<Rightarrow> bool" where
  "is_taxi_flight_railway e = (event_class e \<in> {TaxiEvent, FlightEvent, RailwayEvent})"

text \<open>Lines 42 to 59: the endpoints and the transport type, by the class of the event.\<close>

definition route_endpoints :: "event \<Rightarrow> location option \<times> location option \<times> string" where
  "route_endpoints e =
     (if event_class e = TaxiEvent then (from_location e, to_location e, ''Taxi'')
      else if event_class e = FlightEvent then (departure_location e, arrival_location e, ''Flight'')
      else if event_class e = RailwayEvent then (from_location e, to_location e, ''Railway'')
      else (None, None, []))"

text \<open>
  Lines 61 to 85: the route of one transport event, or nothing when a location or a city is
  missing (\<^verbatim>\<open>continue\<close>). An empty city name is falsy.
\<close>

definition make_route :: "event \<Rightarrow> route option" where
  "make_route e =
     (case route_endpoints e of
        (Some floc, Some tloc, ty) \<Rightarrow>
          if city floc = [] \<or> city tloc = [] then None
          else Some \<lparr>route_event_id = event_id e, route_event = e,
                     route_from_city = city floc, route_to_city = city tloc,
                     route_start_time = py_or (exact_start_time (time_window e)) (earliest_start (time_window e)),
                     route_end_time = py_or (exact_end_time (time_window e)) (latest_end (time_window e)),
                     route_transport_type = ty\<rparr>
      | _ \<Rightarrow> None)"

definition routes_match :: "route \<Rightarrow> route \<Rightarrow> bool" where
  "routes_match route1 route2 =
     ((route_from_city route1 = route_from_city route2 \<and> route_to_city route1 = route_to_city route2) \<or>
      (route_from_city route1 = route_to_city route2 \<and> route_to_city route1 = route_from_city route2))"

definition times_overlap :: "route \<Rightarrow> route \<Rightarrow> bool" where
  "times_overlap route1 route2 =
     (route_start_time route1 \<le> route_end_time route2 \<and>
      route_start_time route2 \<le> route_end_time route1)"

text \<open>\<^verbatim>\<open>0 <= (route2["start_time"] - route1["end_time"]).total_seconds() / 60 <= 90\<close>\<close>

definition transfer_window :: "route \<Rightarrow> route \<Rightarrow> bool" where
  "transfer_window route1 route2 =
     (let m = (of_int (route_start_time route2 - route_end_time route1) / of_int us_per_minute :: rat)
      in 0 \<le> m \<and> m \<le> 90)"

text \<open>Lines 116 to 126: whether the taxi transfer allowance skips the pair.\<close>

definition taxi_transfer_skip :: "route \<Rightarrow> route \<Rightarrow> bool" where
  "taxi_transfer_skip route1 route2 =
     (if ''Taxi'' \<in> set [route_transport_type route1, route_transport_type route2] then
        (if route_transport_type route1 = ''Taxi'' \<and> route_transport_type route2 \<noteq> ''Taxi''
         then transfer_window route1 route2
         else if route_transport_type route2 = ''Taxi'' \<and> route_transport_type route1 \<noteq> ''Taxi''
         then transfer_window route1 route2
         else False)
      else False)"

definition multi_transport_finding :: "string \<Rightarrow> route \<Rightarrow> route \<Rightarrow> finding" where
  "multi_transport_finding uid route1 route2 =
     (let event1 = route_event route1; event2 = route_event route2;
          overlap_start = max (route_start_time route1) (route_start_time route2);
          overlap_end = min (route_end_time route1) (route_end_time route2);
          overlap_minutes = (of_int (overlap_end - overlap_start) / of_int us_per_minute :: rat)
      in [(''primary_event_id'', VStr (event_id event1)),
          (''secondary_event_id'', VStr (event_id event2)),
          (''user_id'', VStr uid),
          (''user_name'', VStr (user_name event1)),
          (''department'', VStr (department event1)),
          (''from_city'', VStr (route_from_city route1)),
          (''to_city'', VStr (route_to_city route1)),
          (''transport1_type'', VStr (route_transport_type route1)),
          (''transport2_type'', VStr (route_transport_type route2)),
          (''transport1_start'', VTime (route_start_time route1)),
          (''transport1_end'', VTime (route_end_time route1)),
          (''transport2_start'', VTime (route_start_time route2)),
          (''transport2_end'', VTime (route_end_time route2)),
          (''overlap_minutes'', VInt (py_round overlap_minutes)),
          (''transport1_amount'', VNum (amount event1)),
          (''transport2_amount'', VNum (amount event2))])"

text \<open>Lines 90 to 155: the body of the pair loop.\<close>

definition route_pair_conflict :: "string \<Rightarrow> route \<Rightarrow> route \<Rightarrow> finding option" where
  "route_pair_conflict uid route1 route2 =
     (if \<not> routes_match route1 route2 then None
      else if taxi_transfer_skip route1 route2 then None
      else if routes_match route1 route2 \<and> times_overlap route1 route2
      then Some (multi_transport_finding uid route1 route2)
      else None)"

definition user_transport_conflicts :: "string \<times> event list \<Rightarrow> finding list" where
  "user_transport_conflicts ue =
     (let transport_events = filter is_taxi_flight_railway (snd ue)
      in if length transport_events < 2 then []
         else List.map_filter (\<lambda>(route1, route2). route_pair_conflict (fst ue) route1 route2)
                (pairs (List.map_filter make_route transport_events)))"

definition detect_multi_transport_same_route_time :: "event list \<Rightarrow> finding list option" where
  "detect_multi_transport_same_route_time events =
     (if events = [] then None
      else (let fraud_instances = concat (map user_transport_conflicts (group_by_key user_id events))
            in if fraud_instances = [] then None else Some fraud_instances))"

section \<open>fd\_hotel\_flight\_temporal\_conflict\_nofunc.py, lines 45, 46, 61 and 62\<close>

definition check_in_time :: "event \<Rightarrow> datetime" where
  "check_in_time hotel = py_or (exact_start_time (time_window hotel)) (earliest_start (time_window hotel))"

definition check_out_time :: "event \<Rightarrow> datetime" where
  "check_out_time hotel = py_or (exact_end_time (time_window hotel)) (latest_end (time_window hotel))"

definition departure_time :: "event \<Rightarrow> datetime" where
  "departure_time flight = py_or (exact_start_time (time_window flight)) (earliest_start (time_window flight))"

definition arrival_time :: "event \<Rightarrow> datetime" where
  "arrival_time flight = py_or (exact_end_time (time_window flight)) (latest_end (time_window flight))"

section \<open>The rule object and the loops\<close>

text \<open>
  The rule object handed to every detection is built by \<^verbatim>\<open>expensecbr.fde\<close>, which is not
  among the sources. Its geographic methods are taken as parameters, the fields of this
  record, with the results the rules expect of them: \<^verbatim>\<open>rule.get_distance\<close> answers
  \<^verbatim>\<open>None\<close> for a pair it cannot measure.
\<close>

record rule =
  is_same_city :: "location option \<Rightarrow> location option \<Rightarrow> bool"
  get_distance :: "location option \<Rightarrow> location option \<Rightarrow> rat option"
  calculate_travel_time :: "location option \<Rightarrow> location option \<Rightarrow> rat \<Rightarrow> rat"
  is_within_distance :: "location option \<Rightarrow> location option \<Rightarrow> rat \<Rightarrow> bool"
  do_time_intervals_overlap :: "time_window \<Rightarrow> time_window \<Rightarrow> bool"
  get_overlap_duration :: "time_window \<Rightarrow> time_window \<Rightarrow> time_unit \<Rightarrow> rat"

text \<open>
  A loop whose body raises, appends one element to the result list, or continues: the
  first exception ends the loop.
\<close>

fun collect_opt :: "('a \<Rightarrow> py_error + 'b option) \<Rightarrow> 'a list \<Rightarrow> py_error + 'b list" where
  "collect_opt f [] = Inr []"
| "collect_opt f (x # xs) =
     (case f x of
        Inl err \<Rightarrow> Inl err
      | Inr r \<Rightarrow>
          (case collect_opt f xs of
             Inl err \<Rightarrow> Inl err
           | Inr rs \<Rightarrow> Inr (case r of None \<Rightarrow> rs | Some v \<Rightarrow> v # rs)))"

text \<open>The same for a body that appends several elements.\<close>

fun collect_list :: "('a \<Rightarrow> py_error + 'b list) \<Rightarrow> 'a list \<Rightarrow> py_error + 'b list" where
  "collect_list f [] = Inr []"
| "collect_list f (x # xs) =
     (case f x of
        Inl err \<Rightarrow> Inl err
      | Inr r \<Rightarrow>
          (case collect_list f xs of
             Inl err \<Rightarrow> Inl err
           | Inr rs \<Rightarrow> Inr (r @ rs)))"

text \<open>\<^verbatim>\<open>return results if results else False\<close>\<close>

definition list_or_False :: "py_error + 'b list \<Rightarrow> py_error + 'b list option" where
  "list_or_False r =
     (case r of Inl err \<Rightarrow> Inl err | Inr xs \<Rightarrow> Inr (if xs = [] then None else Some xs))"

text \<open>\<^verbatim>\<open>datetime.date()\<close>, as the number of the day.\<close>

definition date_of :: "datetime \<Rightarrow> int" where
  "date_of t = t div us_per_day"

section \<open>fd\_checkin\_different\_cities\_same\_day.py\<close>

text \<open>
  Lines 71 to 121, the body of the pair loop. Reading \<^verbatim>\<open>event.location.city\<close> raises when
  the event has no location; a speed of zero makes the division raise.
\<close>

definition checkin_pair :: "rule \<Rightarrow> rule_context \<Rightarrow> event \<Rightarrow> event \<Rightarrow> py_error + finding option" where
  "checkin_pair rule ctx event1 event2 =
     (let max_travel_speed = context_get ctx ''max_travel_speed_kmh'' 200;
          min_travel_hours = context_get ctx ''min_travel_hours'' 1;
          min_suspicious_distance = context_get ctx ''min_suspicious_distance'' 150
      in if is_same_city rule (location event1) (location event2) then Inr None
         else (case get_distance rule (location event1) (location event2) of
                 None \<Rightarrow> Inr None
               | Some distance \<Rightarrow>
                   if distance < min_suspicious_distance then Inr None
                   else if max_travel_speed = 0 then Inl ZeroDivisionError
                   else (let required_travel_time = distance / max_travel_speed + min_travel_hours;
                             first_diff = \<bar>time_difference (latest_end (time_window event1))
                                            (earliest_start (time_window event2)) Hours\<bar>;
                             time_diff_hours =
                               (if required_travel_time \<le> first_diff
                                then \<bar>time_difference (latest_end (time_window event2))
                                       (earliest_start (time_window event1)) Hours\<bar>
                                else first_diff)
                         in if time_diff_hours < required_travel_time then
                              (case (location event1, location event2) of
                                 (Some loc1, Some loc2) \<Rightarrow>
                                   Inr (Some [(''event1_id'', VStr (event_id event1)),
                                              (''event2_id'', VStr (event_id event2)),
                                              (''distance_km'', VNum distance),
                                              (''time_diff_hours'', VNum time_diff_hours),
                                              (''required_travel_hours'', VNum required_travel_time),
                                              (''city1'', VStr (city loc1)),
                                              (''city2'', VStr (city loc2)),
                                              (''time1'', VTime (earliest_start (time_window event1))),
                                              (''time2'', VTime (earliest_start (time_window event2)))])
                               | _ \<Rightarrow> Inl AttributeError)
                            else Inr None)))"




section \<open>llm\_rules/fd\_ubiquitous\_presence.py\<close>

text \<open>
  Lines 62 to 104, the body of the loop over the pairs of cities. Each city comes with the
  list of the user's events there; \<^verbatim>\<open>cities[city1][0]\<close> raises on an empty list.
\<close>

definition ubiquitous_city_pair ::
  "rule \<Rightarrow> rule_context \<Rightarrow> string \<times> event list \<Rightarrow> string \<times> event list \<Rightarrow> py_error + finding option" where
  "ubiquitous_city_pair rule ctx c1 c2 =
     (let min_city_distance_km = context_get ctx ''ubiquitous_min_distance_km'' 500;
          max_travel_speed_kmh = context_get ctx ''ubiquitous_max_travel_speed_kmh'' 500;
          city1_event = snd c1 ! 0;
          city2_event = snd c2 ! 0
      in if snd c1 = [] \<or> snd c2 = [] then Inl IndexError else
         (case get_distance rule (location city1_event) (location city2_event) of
            None \<Rightarrow> Inr None
          | Some distance \<Rightarrow>
              if distance < min_city_distance_km then Inr None
              else if max_travel_speed_kmh = 0 then Inl ZeroDivisionError
              else (let min_travel_time = distance / max_travel_speed_kmh;
                        city1_events_times = map (\<lambda>e. earliest_start (time_window e)) (snd c1)
                                           @ map (\<lambda>e. latest_end (time_window e)) (snd c1);
                        city2_events_times = map (\<lambda>e. earliest_start (time_window e)) (snd c2)
                                           @ map (\<lambda>e. latest_end (time_window e)) (snd c2);
                        city1_earliest = Min (set city1_events_times);
                        city1_latest = Max (set city1_events_times);
                        city2_earliest = Min (set city2_events_times);
                        city2_latest = Max (set city2_events_times);
                        time_diff_1to2 = time_difference city1_earliest city2_latest Hours;
                        time_diff_2to1 = time_difference city2_earliest city1_latest Hours;
                        max_time_diff = max \<bar>time_diff_1to2\<bar> \<bar>time_diff_2to1\<bar>
                    in if max_time_diff < min_travel_time then
                         Inr (Some [(''city1'', VStr (fst c1)),
                                    (''city2'', VStr (fst c2)),
                                    (''distance_km'', VNum distance),
                                    (''min_travel_time_hours'', VNum min_travel_time),
                                    (''available_time_hours'', VNum max_time_diff),
                                    (''city1_event_id'', VStr (event_id city1_event)),
                                    (''city2_event_id'', VStr (event_id city2_event))])
                       else Inr None)))"

text \<open>
  \<^verbatim>\<open>min(xs, key=k)\<close> on a list with first element \<open>x\<close>: the first element with the least
  key.
\<close>

fun min_by :: "('a \<Rightarrow> int) \<Rightarrow> 'a \<Rightarrow> 'a list \<Rightarrow> 'a" where
  "min_by k x [] = x"
| "min_by k x (y # ys) = (if k y < k x then min_by k y ys else min_by k x ys)"

text \<open>
  Lines 35 to 144, the body of the loop over the users. The set \<^verbatim>\<open>event_types\<close> is listed
  in the order of first occurrence.
\<close>

definition user_ubiquitous_pattern ::
  "rule \<Rightarrow> rule_context \<Rightarrow> string \<times> event list \<Rightarrow> py_error + finding option" where
  "user_ubiquitous_pattern rule ctx ue =
     (let min_city_count = context_get ctx ''ubiquitous_min_city_count'' 3;
          user_event_list = snd ue
      in if of_nat (length user_event_list) < min_city_count then Inr None
         else if None \<in> set (map location user_event_list) then Inl AttributeError
         else (let cities = group_by_key (\<lambda>e. city (the (location e)))
                              (filter (\<lambda>e. city (the (location e)) \<noteq> []) user_event_list)
               in if of_nat (length cities) < min_city_count then Inr None
                  else (case collect_opt (\<lambda>(c1, c2). ubiquitous_city_pair rule ctx c1 c2) (pairs cities) of
                          Inl err \<Rightarrow> Inl err
                        | Inr distant_city_pairs \<Rightarrow>
                            if min_city_count - 1 \<le> of_nat (length distant_city_pairs) then
                              (case user_event_list of
                                 [] \<Rightarrow> Inl ValueError
                               | first_event # others \<Rightarrow>
                               let primary_event = min_by (\<lambda>e. earliest_start (time_window e)) first_event others
                               in Inr (Some
                                    [(''primary_event_id'', VStr (event_id primary_event)),
                                     (''user_id'', VStr (fst ue)),
                                     (''user_name'', VStr (user_name primary_event)),
                                     (''department'', VStr (department primary_event)),
                                     (''date'', VInt (date_of (earliest_start (time_window primary_event)))),
                                     (''city_count'', VInt (int (length cities))),
                                     (''cities'', VList (map (VStr \<circ> fst) cities)),
                                     (''city_details'',
                                        VDict (map (\<lambda>(c, evs). (c, VList (map (\<lambda>e.
                                           VDict [(''event_id'', VStr (event_id e)),
                                                  (''event_type'', VStr (class_name (event_class e))),
                                                  (''time'', VTime (earliest_start (time_window e)))]) evs))) cities)),
                                     (''event_types'',
                                        VList (map VStr (remdups (map (\<lambda>e. short_class_name (event_class e)) user_event_list)))),
                                     (''distant_city_pairs'', VList (map VDict distant_city_pairs))]))
                            else Inr None)))"

definition detect_ubiquitous_presence ::
  "rule \<Rightarrow> event list \<Rightarrow> rule_context \<Rightarrow> py_error + finding list option" where
  "detect_ubiquitous_presence rule events ctx =
     (if events = [] then Inr None
      else list_or_False (collect_opt (user_ubiquitous_pattern rule ctx) (group_by_key user_id events)))"

section \<open>llm-rules-partial-functions/rules/fd\_ubiquitous\_presence.py\<close>

text \<open>A Python float that may be \<^verbatim>\<open>float('inf')\<close>.\<close>

datatype pyfloat = Fin rat | PosInf

fun pf_less :: "pyfloat \<Rightarrow> pyfloat \<Rightarrow> bool" where
  "pf_less (Fin a) (Fin b) = (a < b)"
| "pf_less (Fin a) PosInf = True"
| "pf_less PosInf b = False"

text \<open>Division by a positive number.\<close>

fun pf_div :: "pyfloat \<Rightarrow> rat \<Rightarrow> pyfloat" where
  "pf_div (Fin a) c = Fin (a / c)"
| "pf_div PosInf c = PosInf"

fun pf_val :: "pyfloat \<Rightarrow> pyval" where
  "pf_val (Fin a) = VNum a"
| "pf_val PosInf = VInf"

text \<open>
  The table \<^verbatim>\<open>CITY_DISTANCES\<close>, the names of the cities written in Latin letters (the
  source has them in Chinese).
\<close>

definition CITY_DISTANCES :: "((string \<times> string) \<times> rat) list" where
  "CITY_DISTANCES =
     [((''Beijing'', ''Shanghai''), 1318),
      ((''Beijing'', ''Guangzhou''), 1952),
      ((''Beijing'', ''Shenzhen''), 1953),
      ((''Beijing'', ''Chengdu''), 1671),
      ((''Beijing'', ''Wuhan''), 1052),
      ((''Shanghai'', ''Guangzhou''), 1213),
      ((''Shanghai'', ''Shenzhen''), 1207),
      ((''Shanghai'', ''Chengdu''), 1666),
      ((''Shanghai'', ''Wuhan''), 686),
      ((''Guangzhou'', ''Shenzhen''), 107),
      ((''Guangzhou'', ''Chengdu''), 1235),
      ((''Guangzhou'', ''Wuhan''), 841),
      ((''Shenzhen'', ''Chengdu''), 1308),
      ((''Shenzhen'', ''Wuhan''), 938),
      ((''Chengdu'', ''Wuhan''), 1043)]"

definition MAX_REASONABLE_DAILY_TRAVEL_KM :: rat where
  "MAX_REASONABLE_DAILY_TRAVEL_KM = 1200"

text \<open>The function takes the table as an argument, so that it stands for any table.\<close>

definition get_city_distance :: "((string \<times> string) \<times> rat) list \<Rightarrow> string \<Rightarrow> string \<Rightarrow> pyfloat" where
  "get_city_distance table city1 city2 =
     (case map_of table (city1, city2) of
        Some d \<Rightarrow> Fin d
      | None \<Rightarrow>
          (case map_of table (city2, city1) of
             Some d \<Rightarrow> Fin d
           | None \<Rightarrow> PosInf))"

text \<open>
  Lines 101 to 148, the body of the loop over the pairs of cities. The source sorts the two
  lists of events in place; they are lists the function built itself, and a sorted list
  stays as it is when sorted again. Indexing an empty list raises.
\<close>

definition impossible_city_pair ::
  "((string \<times> string) \<times> rat) list \<Rightarrow> string \<times> event list \<Rightarrow> string \<times> event list \<Rightarrow> py_error + finding option" where
  "impossible_city_pair table c1 c2 =
     (let distance = get_city_distance table (fst c1) (fst c2)
      in if pf_less (Fin MAX_REASONABLE_DAILY_TRAVEL_KM) distance then
           if snd c1 = [] \<or> snd c2 = [] then Inl IndexError else
           (let city1_events = sort_key (\<lambda>e. earliest_start (time_window e)) (snd c1);
                city2_events = sort_key (\<lambda>e. earliest_start (time_window e)) (snd c2);
                city1_earliest = earliest_start (time_window (city1_events ! 0));
                city1_latest = latest_end (time_window (last city1_events));
                city2_earliest = earliest_start (time_window (city2_events ! 0));
                city2_latest = latest_end (time_window (last city2_events));
                time_diff1 = \<bar>of_int (city2_earliest - city1_latest) / of_int us_per_hour\<bar>;
                time_diff2 = \<bar>of_int (city1_earliest - city2_latest) / of_int us_per_hour\<bar>;
                min_travel_hours = pf_div distance 300;
                impossible = (pf_less (Fin time_diff1) min_travel_hours \<and>
                              pf_less (Fin time_diff2) min_travel_hours)
            in if impossible then
                 Inr (Some
                      [(''city1'', VStr (fst c1)),
                       (''city2'', VStr (fst c2)),
                       (''distance'', pf_val distance),
                       (''min_travel_hours'', pf_val min_travel_hours),
                       (''city1_event_ids'', VList (map (VStr \<circ> event_id) city1_events)),
                       (''city2_event_ids'', VList (map (VStr \<circ> event_id) city2_events)),
                       (''city1_earliest'', VTime city1_earliest),
                       (''city1_latest'', VTime city1_latest),
                       (''city2_earliest'', VTime city2_earliest),
                       (''city2_latest'', VTime city2_latest)])
               else Inr None)
         else Inr None)"

text \<open>Lines 73 to 164, the body of the loop over the dates of one user.\<close>

definition date_impossible_pattern ::
  "((string \<times> string) \<times> rat) list \<Rightarrow> string \<Rightarrow> int \<times> event list \<Rightarrow> py_error + finding option" where
  "date_impossible_pattern table uid dd =
     (let daily_events = snd dd
      in if length daily_events < 2 then Inr None
         else (let cities_visited =
                     group_by_key (\<lambda>e. city (the (location e)))
                       (filter (\<lambda>e. location e \<noteq> None \<and> city (the (location e)) \<noteq> []) daily_events)
               in if length cities_visited < 2 then Inr None
                  else (case collect_opt (\<lambda>(c1, c2). impossible_city_pair table c1 c2) (pairs cities_visited) of
                          Inl err \<Rightarrow> Inl err
                        | Inr impossible_city_pairs \<Rightarrow>
                            if impossible_city_pairs = [] then Inr None
                            else (let sample_event = daily_events ! 0
                                  in Inr (Some
                                       [(''primary_event_id'', VStr (event_id sample_event)),
                                        (''user_id'', VStr uid),
                                        (''user_name'', VStr (user_name sample_event)),
                                        (''department'', VStr (department sample_event)),
                                        (''date'', VInt (fst dd)),
                                        (''impossible_city_pairs'', VList (map VDict impossible_city_pairs)),
                                        (''num_cities_visited'', VInt (int (length cities_visited)))])))))"

definition user_impossible_patterns ::
  "((string \<times> string) \<times> rat) list \<Rightarrow> string \<times> event list \<Rightarrow> py_error + finding list" where
  "user_impossible_patterns table ue =
     (if length (snd ue) < 2 then Inr []
      else collect_opt (date_impossible_pattern table (fst ue))
             (group_by_key (\<lambda>e. date_of (earliest_start (time_window e))) (snd ue)))"

definition detect_ubiquitous_presence_nofunc ::
  "((string \<times> string) \<times> rat) list \<Rightarrow> event list \<Rightarrow> py_error + finding list option" where
  "detect_ubiquitous_presence_nofunc table events =
     (if events = [] then Inr None
      else list_or_False (collect_list (user_impossible_patterns table) (group_by_key user_id events)))"

section \<open>fd\_impossible\_sequence.py\<close>

text \<open>
  Modelled from the spec: the time window type of \<^verbatim>\<open>expensecbr.base\<close>, which is not among
  the sources, has the four fields of section 3 (\<^verbatim>\<open>earliest_start\<close>, \<^verbatim>\<open>latest_end\<close>,
  \<^verbatim>\<open>exact_start_time\<close>, \<^verbatim>\<open>exact_end_time\<close>) and no attribute \<^verbatim>\<open>latest_start\<close>: reading it
  raises.
\<close>

definition latest_start :: "time_window \<Rightarrow> py_error + datetime" where
  "latest_start w = Inl AttributeError"

text \<open>
  Lines 71 to 80, the search for a transport event that explains the travel. The
  condition is a chain of \<^verbatim>\<open>and\<close>: its second conjunct is evaluated only when the first
  holds.
\<close>

fun transport_explanation :: "rule \<Rightarrow> event list \<Rightarrow> event \<Rightarrow> event \<Rightarrow> py_error + bool" where
  "transport_explanation rule [] event1 event2 = Inr False"
| "transport_explanation rule (transport # ts) event1 event2 =
     (if earliest_start (time_window event1) \<le> earliest_start (time_window transport) then
        (case latest_start (time_window event2) of
           Inl err \<Rightarrow> Inl err
         | Inr ls \<Rightarrow>
             if latest_end (time_window transport) \<le> ls \<and>
                is_same_city rule (from_location transport) (location event1) \<and>
                is_same_city rule (to_location transport) (location event2)
             then Inr True
             else transport_explanation rule ts event1 event2)
      else transport_explanation rule ts event1 event2)"

text \<open>
  Lines 48 to 97, the body of the loop over the consecutive pairs. The duration
  \<^verbatim>\<open>timedelta(hours=min_travel_time_hours)\<close> is kept exact, in microseconds.
\<close>

definition impossible_travel_pair ::
  "rule \<Rightarrow> string \<Rightarrow> event list \<Rightarrow> event \<times> event \<Rightarrow> py_error + finding option" where
  "impossible_travel_pair rule uid transport_events ee =
     (let event1 = fst ee; event2 = snd ee
      in if is_same_city rule (location event1) (location event2) then Inr None
         else (let distance_km = get_distance rule (location event1) (location event2);
                   min_travel_time_hours = calculate_travel_time rule (location event1) (location event2) 100;
                   min_travel_time = min_travel_time_hours * of_int us_per_hour;
                   time_between_events = earliest_start (time_window event2) - latest_end (time_window event1)
               in if of_int time_between_events < min_travel_time then
                    (case transport_explanation rule transport_events event1 event2 of
                       Inl err \<Rightarrow> Inl err
                     | Inr has_transport_explanation \<Rightarrow>
                         if \<not> has_transport_explanation then
                           (case (location event1, location event2) of
                              (Some loc1, Some loc2) \<Rightarrow>
                                Inr (Some
                                  [(''primary_event_id'', VStr (event_id event2)),
                                   (''user_id'', VStr uid),
                                   (''user_name'', VStr (user_name event2)),
                                   (''first_event_id'', VStr (event_id event1)),
                                   (''first_event_time'', VTime (latest_end (time_window event1))),
                                   (''first_event_city'', VStr (city loc1)),
                                   (''second_event_id'', VStr (event_id event2)),
                                   (''second_event_time'', VTime (earliest_start (time_window event2))),
                                   (''second_event_city'', VStr (city loc2)),
                                   (''time_between_events_hours'',
                                      VNum (of_int time_between_events / of_int us_per_hour)),
                                   (''min_travel_time_hours'', VNum min_travel_time_hours),
                                   (''distance_km'', (case distance_km of None \<Rightarrow> VNone | Some d \<Rightarrow> VNum d))])
                            | _ \<Rightarrow> Inl AttributeError)
                         else Inr None)
                  else Inr None))"

text \<open>
  Lines 35 to 97, the body of the loop over the users. Every event of the typed input is a
  trajectory event, so the test \<^verbatim>\<open>isinstance(event, TrajectoryEvent)\<close> of line 25 keeps all.
\<close>

definition user_impossible_travel ::
  "(event_class \<Rightarrow> bool) \<Rightarrow> rule \<Rightarrow> string \<times> event list \<Rightarrow> py_error + finding list" where
  "user_impossible_travel is_TransportEvent rule ue =
     (if length (snd ue) < 2 then Inr []
      else (let sorted_events = sort_key (\<lambda>e. earliest_start (time_window e)) (snd ue);
                transport_events = filter (\<lambda>e. is_TransportEvent (event_class e)) sorted_events
            in collect_opt (impossible_travel_pair rule (fst ue) transport_events)
                 (zip sorted_events (tl sorted_events))))"

definition detect_impossible_travel ::
  "(event_class \<Rightarrow> bool) \<Rightarrow> rule \<Rightarrow> event list \<Rightarrow> py_error + finding list option" where
  "detect_impossible_travel is_TransportEvent rule events =
     (if events = [] \<or> length events < 2 then Inr None
      else list_or_False (collect_list (user_impossible_travel is_TransportEvent rule)
             (group_by_key user_id events)))"

section \<open>fd\_taxi\_sequential\_rides.py\<close>

text \<open>
  Modelled from the spec: an event of \<^verbatim>\<open>expensecbr.base\<close>, which is not among the sources,
  carries its window in the attribute \<^verbatim>\<open>time_window\<close> (section 3) and has no attribute
  \<^verbatim>\<open>time_interval\<close>: reading it raises.
\<close>

definition time_interval :: "event \<Rightarrow> py_error + time_window" where
  "time_interval e = Inl AttributeError"

text \<open>
  \<^verbatim>\<open>sorted(xs, key=k)\<close>: the keys are computed first, from left to right, and the first
  exception of a key ends the call; the sort is stable.
\<close>

fun keys_of :: "('a \<Rightarrow> py_error + int) \<Rightarrow> 'a list \<Rightarrow> py_error + (int \<times> 'a) list" where
  "keys_of k [] = Inr []"
| "keys_of k (x # xs) =
     (case k x of
        Inl err \<Rightarrow> Inl err
      | Inr v \<Rightarrow> (case keys_of k xs of Inl err \<Rightarrow> Inl err | Inr kxs \<Rightarrow> Inr ((v, x) # kxs)))"

definition py_sorted :: "('a \<Rightarrow> py_error + int) \<Rightarrow> 'a list \<Rightarrow> py_error + 'a list" where
  "py_sorted k xs =
     (case keys_of k xs of Inl err \<Rightarrow> Inl err | Inr kxs \<Rightarrow> Inr (map snd (sort_key fst kxs)))"

text \<open>
  Lines 50 to 83: the rides are cut into sequences. \<open>current_sequence\<close> is the sequence
  being built and \<open>previous_event\<close> its last ride.
\<close>

fun split_sequences ::
  "rule \<Rightarrow> rat \<Rightarrow> rat \<Rightarrow> event list \<Rightarrow> event \<Rightarrow> event list \<Rightarrow> py_error + event list list" where
  "split_sequences rule time_threshold min_rides current_sequence previous_event [] =
     Inr (if min_rides \<le> of_nat (length current_sequence) then [current_sequence] else [])"
| "split_sequences rule time_threshold min_rides current_sequence previous_event (current_event # rest) =
     (case time_interval previous_event of
        Inl err \<Rightarrow> Inl err
      | Inr pw \<Rightarrow>
          (case time_interval current_event of
             Inl err \<Rightarrow> Inl err
           | Inr cw \<Rightarrow>
               (let time_between = time_difference (latest_end pw) (earliest_start cw) Hours;
                    location_match = is_within_distance rule (to_location previous_event)
                                       (from_location current_event) 2
                in if 0 \<le> time_between \<and> time_between \<le> time_threshold \<and> location_match
                   then split_sequences rule time_threshold min_rides
                          (current_sequence @ [current_event]) current_event rest
                   else (case split_sequences rule time_threshold min_rides
                                [current_event] current_event rest of
                           Inl err \<Rightarrow> Inl err
                         | Inr sequences \<Rightarrow>
                             Inr ((if min_rides \<le> of_nat (length current_sequence)
                                   then [current_sequence] else []) @ sequences)))))"

text \<open>
  Lines 86 to 124, the body of the loop over the sequences. Adding a distance that is
  \<^verbatim>\<open>None\<close> raises.
\<close>

definition sequence_finding :: "rule \<Rightarrow> rat \<Rightarrow> string \<Rightarrow> event list \<Rightarrow> py_error + finding option" where
  "sequence_finding rule amount_threshold uid sequence =
     (let total_amount = sum_list (map amount sequence)
      in if amount_threshold \<le> total_amount then
           (if None \<in> set (map (\<lambda>e. get_distance rule (from_location e) (to_location e)) sequence)
            then Inl TypeError
            else if sequence = [] then Inl IndexError
            else (let total_distance =
                        sum_list (map (\<lambda>e. the (get_distance rule (from_location e) (to_location e))) sequence)
                  in (case time_interval (sequence ! 0) of
                        Inl err \<Rightarrow> Inl err
                      | Inr w0 \<Rightarrow>
                          (case time_interval (last sequence) of
                             Inl err \<Rightarrow> Inl err
                           | Inr wn \<Rightarrow>
                               (let time_span = time_difference (earliest_start w0) (latest_end wn) Hours
                                in Inr (Some
                                     [(''primary_event_id'', VStr (event_id (last sequence))),
                                      (''related_event_ids'', VList (map (VStr \<circ> event_id) sequence)),
                                      (''user_id'', VStr uid),
                                      (''user_name'', VStr (user_name (sequence ! 0))),
                                      (''department'', VStr (department (sequence ! 0))),
                                      (''total_amount'', VNum total_amount),
                                      (''ride_count'', VInt (int (length sequence))),
                                      (''total_distance'', VNum total_distance),
                                      (''time_span'', VNum time_span),
                                      (''avg_amount_per_ride'', VNum (total_amount / of_nat (length sequence))),
                                      (''sequence_start'', VTime (earliest_start w0)),
                                      (''sequence_end'', VTime (latest_end wn))]))))))
         else Inr None)"

text \<open>Lines 40 to 124, the body of the loop over the users.\<close>

definition user_sequential_patterns ::
  "rule \<Rightarrow> rule_context \<Rightarrow> string \<times> event list \<Rightarrow> py_error + finding list" where
  "user_sequential_patterns rule ctx ue =
     (let time_threshold = context_get ctx ''sequential_taxi_time_threshold'' (1 / 2);
          amount_threshold = context_get ctx ''sequential_taxi_amount_threshold'' 150;
          min_rides = context_get ctx ''sequential_taxi_min_rides'' 3;
          user_taxi_events = snd ue
      in if of_nat (length user_taxi_events) < min_rides then Inr []
         else (case py_sorted (\<lambda>e. map_sum id earliest_start (time_interval e)) user_taxi_events of
                 Inl err \<Rightarrow> Inl err
               | Inr sorted_events \<Rightarrow>
                   (case sorted_events of
                      [] \<Rightarrow> Inl IndexError
                    | first_event # rest \<Rightarrow>
                        (case split_sequences rule time_threshold min_rides [first_event] first_event rest of
                           Inl err \<Rightarrow> Inl err
                         | Inr sequences \<Rightarrow>
                             collect_opt (sequence_finding rule amount_threshold (fst ue)) sequences))))"

definition detect_sequential_taxi_rides ::
  "rule \<Rightarrow> event list \<Rightarrow> rule_context \<Rightarrow> py_error + finding list option" where
  "detect_sequential_taxi_rides rule events ctx =
     (let taxi_events = filter (\<lambda>e. event_class e = TaxiEvent) events
      in if length taxi_events < 3 then Inr None
         else list_or_False (collect_list (user_sequential_patterns rule ctx)
                (group_by_key user_id taxi_events)))"

section \<open>fd\_transport\_reverse\_time.py\<close>

text \<open>
  The class test \<^verbatim>\<open>isinstance(event, TransportEvent)\<close> is against a base class of
  \<^verbatim>\<open>expensecbr.base\<close>, which is not among the sources; the detection takes it as the
  parameter \<open>is_TransportEvent\<close>. The text \<^verbatim>\<open>time_diff_formatted\<close> is kept as its two
  numbers, the hours and the minutes.
\<close>

definition detect_transport_reverse_time :: "(event_class \<Rightarrow> bool) \<Rightarrow> event list \<Rightarrow> finding option" where
  "detect_transport_reverse_time is_TransportEvent events =
     (if events = [] \<or> length events \<noteq> 1 then None
      else (let event = events ! 0 in
        if \<not> is_TransportEvent (event_class event) then None
        else (let tw = time_window event in
          if exact_start_time tw = None \<or> exact_end_time tw = None then None
          else (let start_time = the (exact_start_time tw);
                    end_time = the (exact_end_time tw);
                    time_diff_minutes = time_difference start_time end_time Minutes
                in if time_diff_minutes < 0 then
                     (let abs_diff_minutes = \<bar>time_diff_minutes\<bar>;
                          hours = \<lfloor>abs_diff_minutes / 60\<rfloor>;
                          minutes = \<lfloor>abs_diff_minutes - 60 * of_int \<lfloor>abs_diff_minutes / 60\<rfloor>\<rfloor>
                      in Some [(''primary_event_id'', VStr (event_id event)),
                               (''event_type'', VStr (class_name (event_class event))),
                               (''start_time'', VTime start_time),
                               (''end_time'', VTime end_time),
                               (''time_diff_minutes'', VNum time_diff_minutes),
                               (''time_diff_formatted'', VList [VInt hours, VInt minutes]),
                               (''from_location'', VLoc (from_location event)),
                               (''to_location'', VLoc (to_location event)),
                               (''amount'', VNum (amount event))])
                   else None))))"

section \<open>fd\_taxi\_high\_value.py\<close>

definition detect_high_value_taxi :: "event list \<Rightarrow> rule_context \<Rightarrow> finding option" where
  "detect_high_value_taxi events ctx =
     (if events = [] \<or> length events \<noteq> 1 then None
      else (let event = events ! 0 in
        if event_class event \<noteq> TaxiEvent \<or> is_self_paid event then None
        else (let threshold = context_get ctx ''taxi_high_value_threshold'' 50 in
          if threshold < amount event then
            Some [(''primary_event_id'', VStr (event_id event)),
                  (''amount'', VNum (amount event)),
                  (''threshold'', VNum threshold),
                  (''excess_amount'', VNum (amount event - threshold))]
          else None)))"

section \<open>Individual grouping\<close>

text \<open>
  Modelled from the spec: the individual grouping strategy of the engine
  (\<^verbatim>\<open>create_individual_rule\<close> of \<^verbatim>\<open>expensecbr.fde\<close>, which is not among the sources). The
  input is filtered by the rule's declared event types (the predicate \<open>accepts\<close>) and each
  remaining event is its own singleton candidate group.
\<close>

definition individual_groups :: "(event \<Rightarrow> bool) \<Rightarrow> event list \<Rightarrow> event list list" where
  "individual_groups accepts events = map (\<lambda>e. [e]) (filter accepts events)"

section \<open>Resolutions of a window, and the time between two check-ins\<close>

text \<open>
  A window without exact times leaves the start and the end of its event open: a
  resolution is a start and an end, in this order, within the bounds of the window.
\<close>

definition resolution :: "time_window \<Rightarrow> datetime \<Rightarrow> datetime \<Rightarrow> bool" where
  "resolution w s e = (earliest_start w \<le> s \<and> s \<le> e \<and> e \<le> latest_end w)"


section \<open>Sample events\<close>

definition mk_window :: "datetime \<Rightarrow> datetime \<Rightarrow> datetime option \<Rightarrow> datetime option \<Rightarrow> time_window" where
  "mk_window a b s e = \<lparr>earliest_start = a, latest_end = b, exact_start_time = s, exact_end_time = e\<rparr>"

definition mk_loc :: "string \<Rightarrow> location" where
  "mk_loc c = \<lparr>city = c, specific_location = None, full_address = None\<rparr>"

definition mk_event ::
  "string \<Rightarrow> string \<Rightarrow> event_class \<Rightarrow> time_window \<Rightarrow> location option \<Rightarrow> location option \<Rightarrow> location option \<Rightarrow> rat \<Rightarrow> event"
  where
  "mk_event eid uid c w l floc tloc a =
     \<lparr>event_id = eid, user_id = uid, user_name = ''User'', department = ''Dept'',
      event_class = c, time_window = w, location = l, from_location = floc, to_location = tloc,
      departure_location = floc, arrival_location = tloc, amount = a, is_self_paid = False,
      hotel_name = [], guest_name = []\<rparr>"

text \<open>
  A rule object for the sample runs: two locations are in the same city when their city
  names are equal, distances are read from a table of city pairs (in either order), the
  travel time is the distance over the speed, and two windows overlap when their bounds
  do, for the time from the later start to the earlier end.
\<close>

definition table_distance :: "((string \<times> string) \<times> rat) list \<Rightarrow> location option \<Rightarrow> location option \<Rightarrow> rat option" where
  "table_distance table a b =
     (case (a, b) of
        (Some x, Some y) \<Rightarrow>
          (case map_of table (city x, city y) of
             Some d \<Rightarrow> Some d
           | None \<Rightarrow> map_of table (city y, city x))
      | _ \<Rightarrow> None)"

definition table_rule :: "((string \<times> string) \<times> rat) list \<Rightarrow> rule" where
  "table_rule table =
     \<lparr>is_same_city = (\<lambda>a b. case (a, b) of (Some x, Some y) \<Rightarrow> city x = city y | _ \<Rightarrow> False),
      get_distance = table_distance table,
      calculate_travel_time =
        (\<lambda>a b speed. case table_distance table a b of Some d \<Rightarrow> d / speed | None \<Rightarrow> 0),
      is_within_distance =
        (\<lambda>a b km. case table_distance table a b of Some d \<Rightarrow> d \<le> km | None \<Rightarrow> False),
      do_time_intervals_overlap =
        (\<lambda>w1 w2. max (earliest_start w1) (earliest_start w2) \<le> min (latest_end w1) (latest_end w2)),
      get_overlap_duration =
        (\<lambda>w1 w2 u. max 0 (time_difference (max (earliest_start w1) (earliest_start w2))
                              (min (latest_end w1) (latest_end w2)) u))\<rparr>"

definition ab_200 :: "((string \<times> string) \<times> rat) list" where
  "ab_200 = [((''A'', ''B''), 200)]"

definition ab_400 :: "((string \<times> string) \<times> rat) list" where
  "ab_400 = [((''A'', ''B''), 400)]"

definition ab_100 :: "((string \<times> string) \<times> rat) list" where
  "ab_100 = [((''A'', ''B''), 100)]"

text \<open>Taxi, flight and railway events as the transport classes, for the sample runs.\<close>

definition directed_transport :: "event_class \<Rightarrow> bool" where
  "directed_transport c = (c = TaxiEvent \<or> c = FlightEvent \<or> c = RailwayEvent)"

text \<open>
  Two taxi rides between the same cities: the first from 09:00 to 10:00, the second from
  10:00 to 11:00 (hours of one day, in microseconds); a third ride within one city.
\<close>

definition ride_9_10 :: event where
  "ride_9_10 = mk_event ''t1'' ''u1'' TaxiEvent
     (mk_window (9 * us_per_hour) (10 * us_per_hour) None None)
     None (Some (mk_loc ''A'')) (Some (mk_loc ''B'')) 30"

definition ride_10_11 :: event where
  "ride_10_11 = mk_event ''t2'' ''u1'' TaxiEvent
     (mk_window (10 * us_per_hour) (11 * us_per_hour) None None)
     None (Some (mk_loc ''A'')) (Some (mk_loc ''B'')) 30"

definition taxi_80 :: event where
  "taxi_80 = mk_event ''t5'' ''u1'' TaxiEvent
     (mk_window (9 * us_per_hour) (10 * us_per_hour) None None)
     None (Some (mk_loc ''A'')) (Some (mk_loc ''A'')) 80"

text \<open>
  A ride with exact start 10:00 and exact end 09:00, and a ride from 08:00 to 11:00.
\<close>

definition ride_reversed :: event where
  "ride_reversed = mk_event ''t3'' ''u1'' TaxiEvent
     (mk_window (8 * us_per_hour) (12 * us_per_hour) (Some (10 * us_per_hour)) (Some (9 * us_per_hour)))
     None (Some (mk_loc ''A'')) (Some (mk_loc ''B'')) 30"

definition ride_8_11 :: event where
  "ride_8_11 = mk_event ''t4'' ''u1'' TaxiEvent
     (mk_window (8 * us_per_hour) (11 * us_per_hour) None None)
     None (Some (mk_loc ''A'')) (Some (mk_loc ''B'')) 30"

text \<open>A flight with exact start 14:00 and exact end 13:30 of the same day.\<close>

definition flight_reversed :: event where
  "flight_reversed = mk_event ''f1'' ''u1'' FlightEvent
     (mk_window (13 * us_per_hour) (15 * us_per_hour)
        (Some (14 * us_per_hour)) (Some (13 * us_per_hour + 30 * us_per_minute)))
     None (Some (mk_loc ''A'')) (Some (mk_loc ''B'')) 800"




text \<open>
  Hotel stays of one user on one day, in two cities that the table \<open>CITY_DISTANCES\<close> does
  not have, and in two that it has.
\<close>

definition hotel_x :: event where
  "hotel_x = mk_event ''h1'' ''u1'' HotelEvent
     (mk_window (9 * us_per_hour) (10 * us_per_hour) None None)
     (Some (mk_loc ''Lhasa'')) None None 300"

definition hotel_y :: event where
  "hotel_y = mk_event ''h2'' ''u1'' HotelEvent
     (mk_window (12 * us_per_hour) (13 * us_per_hour) None None)
     (Some (mk_loc ''Harbin'')) None None 300"

definition hotel_bj :: event where
  "hotel_bj = mk_event ''h3'' ''u1'' HotelEvent
     (mk_window (9 * us_per_hour) (10 * us_per_hour) None None)
     (Some (mk_loc ''Beijing'')) None None 300"

definition hotel_sh :: event where
  "hotel_sh = mk_event ''h4'' ''u1'' HotelEvent
     (mk_window (10 * us_per_hour) (11 * us_per_hour) None None)
     (Some (mk_loc ''Shanghai'')) None None 300"

text \<open>
  Stays in A within 00:00 and 04:00 and in B within 04:00 and 10:00, without exact times
  and with them (in A from 01:00 to 02:00, in B from 06:00 to 08:00), and a taxi ride from
  A to B within 04:00 and 05:00.
\<close>

definition stay_a :: event where
  "stay_a = mk_event ''s1'' ''u1'' HotelEvent
     (mk_window 0 (4 * us_per_hour) None None)
     (Some (mk_loc ''A'')) None None 300"

definition stay_b :: event where
  "stay_b = mk_event ''s2'' ''u1'' HotelEvent
     (mk_window (4 * us_per_hour) (10 * us_per_hour) None None)
     (Some (mk_loc ''B'')) None None 300"

definition stay_a_exact :: event where
  "stay_a_exact = mk_event ''s3'' ''u1'' HotelEvent
     (mk_window 0 (4 * us_per_hour) (Some (1 * us_per_hour)) (Some (2 * us_per_hour)))
     (Some (mk_loc ''A'')) None None 300"

definition stay_b_exact :: event where
  "stay_b_exact = mk_event ''s4'' ''u1'' HotelEvent
     (mk_window (4 * us_per_hour) (10 * us_per_hour) (Some (6 * us_per_hour)) (Some (8 * us_per_hour)))
     (Some (mk_loc ''B'')) None None 300"


lemmas sample_simps =
  mk_event_def mk_window_def mk_loc_def us_per_hour_def us_per_minute_def us_per_day_def

lemmas rule_simps = table_rule_def table_distance_def ab_200_def ab_400_def ab_100_def

section \<open>Basic facts on grouping and on the loops\<close>

lemma map_of_dict_append:
  "map_of (dict_append d k v) =
     (map_of d)(k \<mapsto> (case map_of d k of None \<Rightarrow> [v] | Some vs \<Rightarrow> vs @ [v]))"
  by (induction d k v rule: dict_append.induct) (auto simp: fun_eq_iff)

lemma keys_dict_append:
  "fst ` set (dict_append d k v) = insert k (fst ` set d)"
  by (induction d k v rule: dict_append.induct) auto

lemma distinct_dict_append:
  "distinct (map fst d) \<Longrightarrow> distinct (map fst (dict_append d k v))"
proof (induction d k v rule: dict_append.induct)
  case (1 k v)
  then show ?case by simp
next
  case (2 k' vs d k v)
  then show ?case
    using keys_dict_append [of d k v] by (auto simp: image_iff)
qed

lemma distinct_foldl_dict_append:
  "distinct (map fst d) \<Longrightarrow> distinct (map fst (foldl (\<lambda>d x. dict_append d (f x) x) d xs))"
  by (induction xs arbitrary: d) (simp_all add: distinct_dict_append)

lemma map_of_foldl_dict_append:
  "map_of (foldl (\<lambda>d x. dict_append d (f x) x) d xs) k =
     (case map_of d k of
        None \<Rightarrow> (if filter (\<lambda>x. f x = k) xs = [] then None else Some (filter (\<lambda>x. f x = k) xs))
      | Some vs \<Rightarrow> Some (vs @ filter (\<lambda>x. f x = k) xs))"
  by (induction xs arbitrary: d) (auto simp: map_of_dict_append split: option.splits)

text \<open>
  The groups are the non-empty classes of the key, each in the order of the input.
\<close>

lemma group_by_key_iff:
  "(k, vs) \<in> set (group_by_key f xs) \<longleftrightarrow> vs = filter (\<lambda>x. f x = k) xs \<and> vs \<noteq> []"
proof -
  have d: "distinct (map fst (group_by_key f xs))"
    unfolding group_by_key_def by (rule distinct_foldl_dict_append) simp
  have "(k, vs) \<in> set (group_by_key f xs) \<longleftrightarrow> map_of (group_by_key f xs) k = Some vs"
    using d by simp
  also have "\<dots> \<longleftrightarrow> vs = filter (\<lambda>x. f x = k) xs \<and> vs \<noteq> []"
    unfolding group_by_key_def map_of_foldl_dict_append by auto
  finally show ?thesis .
qed


lemma collect_list_error:
  "\<forall>x\<in>set xs. \<forall>e. f x = Inl e \<longrightarrow> e = err \<Longrightarrow> \<exists>x\<in>set xs. \<exists>e. f x = Inl e \<Longrightarrow>
   collect_list f xs = Inl err"
proof (induction xs)
  case Nil
  then show ?case by simp
next
  case (Cons a xs)
  show ?case
  proof (cases "f a")
    case (Inl e)
    with Cons.prems(1) show ?thesis by simp
  next
    case (Inr r)
    with Cons.prems(2) have "\<exists>x\<in>set xs. \<exists>e. f x = Inl e" by auto
    moreover from Cons.prems(1) have "\<forall>x\<in>set xs. \<forall>e. f x = Inl e \<longrightarrow> e = err" by simp
    ultimately have "collect_list f xs = Inl err" by (rule Cons.IH [rotated])
    with Inr show ?thesis by simp
  qed
qed


lemma collect_list_Inl_D:
  "collect_list f xs = Inl e \<Longrightarrow> \<exists>x\<in>set xs. f x = Inl e"
  by (induction xs) (auto split: sum.splits)

lemma list_or_False_Inl [simp]: "list_or_False (Inl e) = Inl e"
  by (simp add: list_or_False_def)


section \<open>Basic facts on times\<close>

lemma time_difference_negative:
  "time_difference s t u < 0 \<longleftrightarrow> t < s"
proof -
  have "0 < (of_int (unit_us u) :: rat)"
    by (cases u) (simp_all add: us_per_minute_def us_per_hour_def us_per_day_def)
  then show ?thesis
    by (simp add: time_difference_def divide_less_0_iff)
qed

lemma time_difference_mono:
  "t2 - t1 \<le> t2' - t1' \<Longrightarrow> time_difference t1 t2 u \<le> time_difference t1' t2' u"
proof -
  assume a: "t2 - t1 \<le> t2' - t1'"
  have p: "0 < (of_int (unit_us u) :: rat)"
    by (cases u) (simp_all add: us_per_minute_def us_per_hour_def us_per_day_def)
  from a have "(of_int (t2 - t1) :: rat) \<le> of_int (t2' - t1')" by (simp only: of_int_le_iff)
  with p show ?thesis
    unfolding time_difference_def by (simp add: divide_right_mono)
qed

lemma make_route_times:
  assumes "make_route e = Some r"
  shows "route_start_time r = effective_start (time_window e)"
    and "route_end_time r = effective_end (time_window e)"
    and "route_event r = e"
  using assms
  by (auto simp: make_route_def effective_start_def effective_end_def py_or_def
      split: prod.splits option.splits if_splits)

lemma make_route_ride_9_10:
  "make_route ride_9_10 =
     Some \<lparr>route_event_id = ''t1'', route_event = ride_9_10, route_from_city = ''A'',
           route_to_city = ''B'', route_start_time = 9 * us_per_hour,
           route_end_time = 10 * us_per_hour, route_transport_type = ''Taxi''\<rparr>"
  by (simp add: make_route_def route_endpoints_def py_or_def ride_9_10_def sample_simps)

lemma make_route_ride_10_11:
  "make_route ride_10_11 =
     Some \<lparr>route_event_id = ''t2'', route_event = ride_10_11, route_from_city = ''A'',
           route_to_city = ''B'', route_start_time = 10 * us_per_hour,
           route_end_time = 11 * us_per_hour, route_transport_type = ''Taxi''\<rparr>"
  by (simp add: make_route_def route_endpoints_def py_or_def ride_10_11_def sample_simps)

section \<open>Claim C1: the favourable resolution of uncertain bounds\<close>

lemma ubiquitous_city_pair_bj_sh:
  "ubiquitous_city_pair (table_rule CITY_DISTANCES) Map.empty
      (''Beijing'', [hotel_bj]) (''Shanghai'', [hotel_sh]) =
   Inr (Some
       [(''city1'', VStr ''Beijing''), (''city2'', VStr ''Shanghai''),
        (''distance_km'', VNum 1318),
        (''min_travel_time_hours'', VNum (659 / 250)),
        (''available_time_hours'', VNum 2),
        (''city1_event_id'', VStr ''h3''),
        (''city2_event_id'', VStr ''h4'')])"
  by (simp add: ubiquitous_city_pair_def Let_def context_get_def time_difference_def
      table_rule_def table_distance_def CITY_DISTANCES_def hotel_bj_def hotel_sh_def sample_simps)

text \<open>
  Claim C1, as amended. When \<^verbatim>\<open>detect_ubiquitous_presence\<close> flags a pair of cities, the
  travel between any event \<open>a\<close> of the first city and any event \<open>b\<close> of the second is
  impossible under every resolution of the two windows: the time from the end of \<open>a\<close> to
  the start of \<open>b\<close>, and the time from the end of \<open>b\<close> to the start of \<open>a\<close>, are both
  less than the minimum travel time, the distance over the speed. The rule compares the
  minimum travel time with the larger of the two gaps between the extreme bounds.
\<close>

theorem ubiquitous_pair_flagged_only_if_impossible:
  assumes flagged: "ubiquitous_city_pair rule ctx (c1, evs1) (c2, evs2) = Inr (Some f)"
    and a: "a \<in> set evs1" and b: "b \<in> set evs2"
    and ra: "resolution (time_window a) sa ea" and rb: "resolution (time_window b) sb eb"
  shows "\<exists>d. get_distance rule (location (evs1 ! 0)) (location (evs2 ! 0)) = Some d \<and>
           time_difference ea sb Hours < d / context_get ctx ''ubiquitous_max_travel_speed_kmh'' 500 \<and>
           time_difference eb sa Hours < d / context_get ctx ''ubiquitous_max_travel_speed_kmh'' 500"
proof -
  let ?t1 = "map (\<lambda>e. earliest_start (time_window e)) evs1 @ map (\<lambda>e. latest_end (time_window e)) evs1"
  let ?t2 = "map (\<lambda>e. earliest_start (time_window e)) evs2 @ map (\<lambda>e. latest_end (time_window e)) evs2"
  let ?speed = "context_get ctx ''ubiquitous_max_travel_speed_kmh'' 500"
  let ?m = "max \<bar>time_difference (Min (set ?t1)) (Max (set ?t2)) Hours\<bar>
                \<bar>time_difference (Min (set ?t2)) (Max (set ?t1)) Hours\<bar>"
  from flagged obtain d where d: "get_distance rule (location (evs1 ! 0)) (location (evs2 ! 0)) = Some d"
    and lt: "?m < d / ?speed"
    by (auto simp: ubiquitous_city_pair_def Let_def split: option.splits if_splits)
  have f1: "finite (set ?t1)" and f2: "finite (set ?t2)" by simp_all
  from a have "earliest_start (time_window a) \<in> set ?t1" and "latest_end (time_window a) \<in> set ?t1"
    by auto
  then have a1: "Min (set ?t1) \<le> earliest_start (time_window a)"
    and a2: "latest_end (time_window a) \<le> Max (set ?t1)"
    using f1 by (simp_all only: Min_le Max_ge)
  from b have "earliest_start (time_window b) \<in> set ?t2" and "latest_end (time_window b) \<in> set ?t2"
    by auto
  then have b1: "Min (set ?t2) \<le> earliest_start (time_window b)"
    and b2: "latest_end (time_window b) \<le> Max (set ?t2)"
    using f2 by (simp_all only: Min_le Max_ge)
  from ra rb a1 b2 have "sb - ea \<le> Max (set ?t2) - Min (set ?t1)"
    unfolding resolution_def by linarith
  then have "time_difference ea sb Hours \<le> time_difference (Min (set ?t1)) (Max (set ?t2)) Hours"
    by (rule time_difference_mono)
  then have x: "time_difference ea sb Hours \<le> ?m" by linarith
  from ra rb b1 a2 have "sa - eb \<le> Max (set ?t1) - Min (set ?t2)"
    unfolding resolution_def by linarith
  then have "time_difference eb sa Hours \<le> time_difference (Min (set ?t2)) (Max (set ?t1)) Hours"
    by (rule time_difference_mono)
  then have y: "time_difference eb sa Hours \<le> ?m" by linarith
  from d lt x y show ?thesis by auto
qed

text \<open>
  Stays in Beijing within 09:00 and 10:00 and in Shanghai within 10:00 and 11:00, at
  1318 km: the pair is flagged, and under the resolution that takes the bounds as they
  are neither direction leaves the 2.636 hours of travel.
\<close>

theorem ubiquitous_pair_flagged_only_if_impossible_witness:
  "resolution (time_window hotel_bj) (9 * us_per_hour) (10 * us_per_hour) \<and>
   resolution (time_window hotel_sh) (10 * us_per_hour) (11 * us_per_hour) \<and>
   get_distance (table_rule CITY_DISTANCES) (location hotel_bj) (location hotel_sh) = Some 1318 \<and>
   time_difference (10 * us_per_hour) (10 * us_per_hour) Hours < 1318 / 500 \<and>
   time_difference (11 * us_per_hour) (9 * us_per_hour) Hours < 1318 / 500"
proof -
  have ra: "resolution (time_window hotel_bj) (9 * us_per_hour) (10 * us_per_hour)"
    and rb: "resolution (time_window hotel_sh) (10 * us_per_hour) (11 * us_per_hour)"
    by (simp_all add: resolution_def hotel_bj_def hotel_sh_def sample_simps)
  have d: "get_distance (table_rule CITY_DISTANCES) (location hotel_bj) (location hotel_sh) = Some 1318"
    by (simp add: table_rule_def table_distance_def CITY_DISTANCES_def hotel_bj_def hotel_sh_def sample_simps)
  have s: "context_get Map.empty ''ubiquitous_max_travel_speed_kmh'' 500 = 500"
    by (simp add: context_get_def)
  from ubiquitous_pair_flagged_only_if_impossible [OF ubiquitous_city_pair_bj_sh _ _ ra rb] d s
  have "time_difference (10 * us_per_hour) (10 * us_per_hour) Hours < 1318 / 500 \<and>
        time_difference (11 * us_per_hour) (9 * us_per_hour) Hours < 1318 / 500"
    by simp
  with ra rb d show ?thesis by simp
qed

text \<open>
  Claim C1, as stated, fails on \<^verbatim>\<open>detect_impossible_travel\<close>, which takes the time from the
  latest end of the first event to the earliest start of the second. The stays in A
  within 00:00 and 04:00 and in B within 04:00 and 10:00, at 200 km and two hours of
  travel, are flagged with no time between them; under the resolution that ends the first
  stay at 01:00 and starts the second at 05:00 four hours are left for the travel.
\<close>

theorem impossible_travel_least_favourable_counterexample:
  "resolution (time_window stay_a) 0 (1 * us_per_hour) \<and>
   resolution (time_window stay_b) (5 * us_per_hour) (6 * us_per_hour) \<and>
   calculate_travel_time (table_rule ab_200) (location stay_a) (location stay_b) 100 = 2 \<and>
   time_difference (1 * us_per_hour) (5 * us_per_hour) Hours = 4 \<and>
   detect_impossible_travel directed_transport (table_rule ab_200) [stay_a, stay_b] =
     Inr (Some
       [[(''primary_event_id'', VStr ''s2''), (''user_id'', VStr ''u1''),
         (''user_name'', VStr ''User''), (''first_event_id'', VStr ''s1''),
         (''first_event_time'', VTime (4 * us_per_hour)),
         (''first_event_city'', VStr ''A''),
         (''second_event_id'', VStr ''s2''),
         (''second_event_time'', VTime (4 * us_per_hour)),
         (''second_event_city'', VStr ''B''),
         (''time_between_events_hours'', VNum 0),
         (''min_travel_time_hours'', VNum 2),
         (''distance_km'', VNum 200)]])"
  by (simp add: detect_impossible_travel_def user_impossible_travel_def impossible_travel_pair_def
      group_by_key_def list_or_False_def Let_def directed_transport_def rule_simps
      resolution_def time_difference_def stay_a_def stay_b_def sample_simps)

section \<open>Claim C2: a pair of cities of unknown distance\<close>

text \<open>
  Claim C2, as amended. A rule that asks \<^verbatim>\<open>rule.get_distance\<close> skips a pair for which the
  answer is \<^verbatim>\<open>None\<close>: the pair loops of \<^verbatim>\<open>detect_same_day_multi_city_checkins\<close> and of
  \<^verbatim>\<open>detect_ubiquitous_presence\<close> continue, with no finding and no exception. The function
  \<^verbatim>\<open>get_city_distance\<close> of the partial-functions rule answers infinity for a pair that its
  table has in neither order.
\<close>

theorem unknown_distance_skips:
  "(get_distance rule (location e1) (location e2) = None
      \<longrightarrow> checkin_pair rule ctx e1 e2 = Inr None)
   \<and> (evs1 \<noteq> [] \<and> evs2 \<noteq> [] \<and> get_distance rule (location (evs1 ! 0)) (location (evs2 ! 0)) = None
      \<longrightarrow> ubiquitous_city_pair rule ctx (c1, evs1) (c2, evs2) = Inr None)
   \<and> (map_of table (city1, city2) = None \<and> map_of table (city2, city1) = None
      \<longrightarrow> get_city_distance table city1 city2 = PosInf)"
  by (simp add: checkin_pair_def ubiquitous_city_pair_def get_city_distance_def Let_def)

theorem unknown_distance_skips_witness:
  "get_distance (table_rule CITY_DISTANCES) (location hotel_x) (location hotel_y) = None \<and>
   checkin_pair (table_rule CITY_DISTANCES) Map.empty hotel_x hotel_y = Inr None \<and>
   ubiquitous_city_pair (table_rule CITY_DISTANCES) Map.empty (''Lhasa'', [hotel_x]) (''Harbin'', [hotel_y]) = Inr None \<and>
   get_city_distance CITY_DISTANCES ''Lhasa'' ''Harbin'' = PosInf"
proof -
  have d: "get_distance (table_rule CITY_DISTANCES) (location hotel_x) (location hotel_y) = None"
    by (simp add: table_rule_def table_distance_def CITY_DISTANCES_def hotel_x_def hotel_y_def sample_simps)
  have m: "map_of CITY_DISTANCES (''Lhasa'', ''Harbin'') = None \<and> map_of CITY_DISTANCES (''Harbin'', ''Lhasa'') = None"
    by (simp add: CITY_DISTANCES_def)
  from unknown_distance_skips [of "table_rule CITY_DISTANCES" hotel_x hotel_y Map.empty
      "[hotel_x]" "[hotel_y]" "''Lhasa''" "''Harbin''" CITY_DISTANCES "''Lhasa''" "''Harbin''"] d m
  show ?thesis by simp
qed

text \<open>
  Claim C2, as stated, fails on the partial-functions \<^verbatim>\<open>detect_ubiquitous_presence\<close>: for
  two cities that the table does not have, the distance is infinite, more than the daily
  limit and more than any time can cover, and the pair is reported.
\<close>

theorem unknown_distance_flagged_counterexample:
  "map_of CITY_DISTANCES (''Lhasa'', ''Harbin'') = None \<and>
   map_of CITY_DISTANCES (''Harbin'', ''Lhasa'') = None \<and>
   detect_ubiquitous_presence_nofunc CITY_DISTANCES [hotel_x, hotel_y] =
     Inr (Some
       [[(''primary_event_id'', VStr ''h1''), (''user_id'', VStr ''u1''),
         (''user_name'', VStr ''User''), (''department'', VStr ''Dept''),
         (''date'', VInt 0),
         (''impossible_city_pairs'',
          VList
           [VDict
             [(''city1'', VStr ''Lhasa''), (''city2'', VStr ''Harbin''),
              (''distance'', VInf), (''min_travel_hours'', VInf),
              (''city1_event_ids'', VList [VStr ''h1'']),
              (''city2_event_ids'', VList [VStr ''h2'']),
              (''city1_earliest'', VTime (9 * us_per_hour)),
              (''city1_latest'', VTime (10 * us_per_hour)),
              (''city2_earliest'', VTime (12 * us_per_hour)),
              (''city2_latest'', VTime (13 * us_per_hour))]]),
         (''num_cities_visited'', VInt 2)]])"
  by (simp add: detect_ubiquitous_presence_nofunc_def user_impossible_patterns_def
      date_impossible_pattern_def impossible_city_pair_def get_city_distance_def
      MAX_REASONABLE_DAILY_TRAVEL_KM_def date_of_def
      group_by_key_def list_or_False_def Let_def CITY_DISTANCES_def hotel_x_def hotel_y_def sample_simps)

section \<open>Claim C3: the overlap test\<close>

text \<open>
  Claim C3, as amended. For the routes of two events whose effective intervals are not
  reversed (effective start at most effective end), the overlap test of
  \<^verbatim>\<open>detect_multi_transport_same_route_time\<close> holds exactly when the larger of the two
  effective starts is at most the smaller of the two effective ends. The intervals are
  closed: when the end of one is the start of the other, the test holds, in either order
  of the arguments.
\<close>

theorem times_overlap_closed_intervals:
  assumes "make_route e1 = Some r1" and "make_route e2 = Some r2"
    and "effective_start (time_window e1) \<le> effective_end (time_window e1)"
    and "effective_start (time_window e2) \<le> effective_end (time_window e2)"
  shows "(times_overlap r1 r2 \<longleftrightarrow>
            max (effective_start (time_window e1)) (effective_start (time_window e2))
              \<le> min (effective_end (time_window e1)) (effective_end (time_window e2)))
         \<and> (effective_end (time_window e1) = effective_start (time_window e2)
            \<longrightarrow> times_overlap r1 r2 \<and> times_overlap r2 r1)"
proof -
  have s1: "route_start_time r1 = effective_start (time_window e1)"
    and f1: "route_end_time r1 = effective_end (time_window e1)"
    using make_route_times [OF assms(1)] by simp_all
  have s2: "route_start_time r2 = effective_start (time_window e2)"
    and f2: "route_end_time r2 = effective_end (time_window e2)"
    using make_route_times [OF assms(2)] by simp_all
  show ?thesis
    unfolding times_overlap_def s1 f1 s2 f2 using assms(3,4) by (auto simp: max_def min_def)
qed

theorem times_overlap_closed_intervals_witness:
  "times_overlap (the (make_route ride_9_10)) (the (make_route ride_10_11)) \<and>
   times_overlap (the (make_route ride_10_11)) (the (make_route ride_9_10)) \<and>
   max (effective_start (time_window ride_9_10)) (effective_start (time_window ride_10_11))
     \<le> min (effective_end (time_window ride_9_10)) (effective_end (time_window ride_10_11))"
proof -
  have a: "effective_start (time_window ride_9_10) \<le> effective_end (time_window ride_9_10)"
    by (simp add: effective_start_def effective_end_def ride_9_10_def sample_simps)
  have b: "effective_start (time_window ride_10_11) \<le> effective_end (time_window ride_10_11)"
    by (simp add: effective_start_def effective_end_def ride_10_11_def sample_simps)
  have c: "effective_end (time_window ride_9_10) = effective_start (time_window ride_10_11)"
    by (simp add: effective_start_def effective_end_def ride_9_10_def ride_10_11_def sample_simps)
  note th = times_overlap_closed_intervals [OF make_route_ride_9_10 make_route_ride_10_11 a b]
  from th c have d: "times_overlap (the (make_route ride_9_10)) (the (make_route ride_10_11)) \<and>
      times_overlap (the (make_route ride_10_11)) (the (make_route ride_9_10))"
    unfolding make_route_ride_9_10 make_route_ride_10_11 option.sel by blast
  from th d show ?thesis
    unfolding make_route_ride_9_10 make_route_ride_10_11 option.sel by blast
qed

text \<open>
  Claim C3, as stated, fails on a reversed window, which the time-window type admits: a
  ride with exact start 10:00 and exact end 09:00 against a ride from 08:00 to 11:00. The
  test of the source holds (10:00 is before 11:00 and 08:00 before 09:00), while the larger
  start, 10:00, is after the smaller end, 09:00.
\<close>

theorem times_overlap_reversed_counterexample:
  "make_route ride_reversed \<noteq> None \<and> make_route ride_8_11 \<noteq> None \<and>
   times_overlap (the (make_route ride_reversed)) (the (make_route ride_8_11)) \<and>
   \<not> max (effective_start (time_window ride_reversed)) (effective_start (time_window ride_8_11))
       \<le> min (effective_end (time_window ride_reversed)) (effective_end (time_window ride_8_11))"
  by (simp add: make_route_def route_endpoints_def py_or_def times_overlap_def
      effective_start_def effective_end_def ride_reversed_def ride_8_11_def sample_simps)

section \<open>Claim C4: reverse time detection\<close>

lemma detect_transport_reverse_time_single:
  "detect_transport_reverse_time T [e] \<noteq> None \<longleftrightarrow>
     T (event_class e) \<and>
     (\<exists>s t. exact_start_time (time_window e) = Some s \<and> exact_end_time (time_window e) = Some t \<and> t < s)"
  by (cases "exact_start_time (time_window e)"; cases "exact_end_time (time_window e)")
     (simp_all add: detect_transport_reverse_time_def Let_def time_difference_negative)

text \<open>
  Claim C4. On a singleton group holding a transport event whose window has both exact
  times, the exact end before the exact start, \<^verbatim>\<open>detect_transport_reverse_time\<close> returns a
  finding whose \<^verbatim>\<open>primary_event_id\<close> is the event's id; when either exact time is missing
  it returns \<^verbatim>\<open>False\<close>. The window is held as it is, reversed or not.
\<close>

theorem detect_transport_reverse_time_flags_reversal:
  assumes "is_TransportEvent (event_class e)"
  shows "(exact_start_time (time_window e) = Some s \<and> exact_end_time (time_window e) = Some t \<and> t < s
            \<longrightarrow> (\<exists>f. detect_transport_reverse_time is_TransportEvent [e] = Some f \<and>
                     map_of f ''primary_event_id'' = Some (VStr (event_id e))))
         \<and> (exact_start_time (time_window e) = None \<or> exact_end_time (time_window e) = None
            \<longrightarrow> detect_transport_reverse_time is_TransportEvent [e] = None)"
  using assms
  by (auto simp: detect_transport_reverse_time_def Let_def time_difference_negative)

theorem detect_transport_reverse_time_flags_reversal_witness:
  "directed_transport (event_class flight_reversed) \<and>
   exact_start_time (time_window flight_reversed) = Some (14 * us_per_hour) \<and>
   exact_end_time (time_window flight_reversed) = Some (13 * us_per_hour + 30 * us_per_minute) \<and>
   (\<exists>f. detect_transport_reverse_time directed_transport [flight_reversed] = Some f \<and>
        map_of f ''primary_event_id'' = Some (VStr ''f1'')) \<and>
   detect_transport_reverse_time directed_transport [ride_9_10] = None"
proof -
  have a: "directed_transport (event_class flight_reversed)"
    by (simp add: directed_transport_def flight_reversed_def sample_simps)
  have b: "exact_start_time (time_window flight_reversed) = Some (14 * us_per_hour)"
    and c: "exact_end_time (time_window flight_reversed) = Some (13 * us_per_hour + 30 * us_per_minute)"
    and d: "13 * us_per_hour + 30 * us_per_minute < 14 * us_per_hour"
    and i: "event_id flight_reversed = ''f1''"
    by (simp_all add: flight_reversed_def sample_simps)
  have a': "directed_transport (event_class ride_9_10)"
    and b': "exact_start_time (time_window ride_9_10) = None"
    by (simp_all add: directed_transport_def ride_9_10_def sample_simps)
  from detect_transport_reverse_time_flags_reversal [where is_TransportEvent = directed_transport
      and e = flight_reversed and s = "14 * us_per_hour"
      and t = "13 * us_per_hour + 30 * us_per_minute", OF a] b c d i
  have "\<exists>f. detect_transport_reverse_time directed_transport [flight_reversed] = Some f \<and>
        map_of f ''primary_event_id'' = Some (VStr ''f1'')"
    by simp
  moreover from detect_transport_reverse_time_flags_reversal [where is_TransportEvent = directed_transport
      and e = ride_9_10, OF a'] b'
  have "detect_transport_reverse_time directed_transport [ride_9_10] = None"
    by simp
  ultimately show ?thesis using a b c by simp
qed

section \<open>Claim C5: the threshold of the feasibility decision\<close>




section \<open>Claim C6: effective start and end\<close>

text \<open>
  Claim C6, as amended. The effective start of a window is its exact start time when
  present and its earliest start otherwise, the effective end its exact end time when
  present and its latest end otherwise. The route of \<^verbatim>\<open>detect_multi_transport_same_route_time\<close>
  and the hotel and flight times of \<^verbatim>\<open>detect_hotel_flight_temporal_conflict\<close> are these
  effective times.
\<close>

theorem effective_times_in_the_partial_function_rules:
  "(make_route e = Some r \<longrightarrow>
      route_start_time r = effective_start (time_window e) \<and>
      route_end_time r = effective_end (time_window e)) \<and>
   check_in_time hotel = effective_start (time_window hotel) \<and>
   check_out_time hotel = effective_end (time_window hotel) \<and>
   departure_time flight = effective_start (time_window flight) \<and>
   arrival_time flight = effective_end (time_window flight) \<and>
   (exact_start_time w = Some s \<longrightarrow> effective_start w = s) \<and>
   (exact_start_time w = None \<longrightarrow> effective_start w = earliest_start w) \<and>
   (exact_end_time w = Some t \<longrightarrow> effective_end w = t) \<and>
   (exact_end_time w = None \<longrightarrow> effective_end w = latest_end w)"
  using make_route_times [of e r]
  by (auto simp: check_in_time_def check_out_time_def departure_time_def arrival_time_def
      effective_start_def effective_end_def py_or_def split: option.splits)

theorem effective_times_in_the_partial_function_rules_witness:
  "route_start_time (the (make_route ride_9_10)) = effective_start (time_window ride_9_10) \<and>
   route_end_time (the (make_route ride_9_10)) = effective_end (time_window ride_9_10) \<and>
   effective_start (time_window ride_9_10) = earliest_start (time_window ride_9_10) \<and>
   effective_start (time_window ride_reversed) = 10 * us_per_hour \<and>
   effective_end (time_window ride_reversed) = 9 * us_per_hour"
proof -
  have a: "exact_start_time (time_window ride_9_10) = None"
    by (simp add: ride_9_10_def sample_simps)
  have c: "exact_start_time (time_window ride_reversed) = Some (10 * us_per_hour)"
    and d: "exact_end_time (time_window ride_reversed) = Some (9 * us_per_hour)"
    by (simp_all add: ride_reversed_def sample_simps)
  have m: "make_route ride_9_10 = Some (the (make_route ride_9_10))"
    unfolding make_route_ride_9_10 option.sel ..
  note th = effective_times_in_the_partial_function_rules
  from th [of ride_9_10 "the (make_route ride_9_10)" ride_9_10 ride_9_10 "time_window ride_9_10"] m a
  have x: "route_start_time (the (make_route ride_9_10)) = effective_start (time_window ride_9_10) \<and>
        route_end_time (the (make_route ride_9_10)) = effective_end (time_window ride_9_10) \<and>
        effective_start (time_window ride_9_10) = earliest_start (time_window ride_9_10)"
    by blast
  from th [of ride_9_10 "the (make_route ride_9_10)" ride_9_10 ride_9_10 "time_window ride_reversed"
      "10 * us_per_hour" "9 * us_per_hour"] c d
  have y: "effective_start (time_window ride_reversed) = 10 * us_per_hour \<and>
        effective_end (time_window ride_reversed) = 9 * us_per_hour"
    by blast
  from x y show ?thesis by blast
qed

text \<open>
  Claim C6, as stated for every rule, fails on \<^verbatim>\<open>detect_impossible_travel\<close>, which takes
  the bounds of the window whether or not exact times are present. The stay in A has the
  exact end 02:00 and the stay in B the exact start 06:00; the rule reports the first
  event as ended at 04:00 and the second as started at 04:00, with no time between them.
\<close>

theorem impossible_travel_ignores_exact_times_counterexample:
  "effective_end (time_window stay_a_exact) = 2 * us_per_hour \<and>
   effective_start (time_window stay_b_exact) = 6 * us_per_hour \<and>
   detect_impossible_travel directed_transport (table_rule ab_200) [stay_a_exact, stay_b_exact] =
     Inr (Some
       [[(''primary_event_id'', VStr ''s4''), (''user_id'', VStr ''u1''),
         (''user_name'', VStr ''User''), (''first_event_id'', VStr ''s3''),
         (''first_event_time'', VTime (4 * us_per_hour)),
         (''first_event_city'', VStr ''A''),
         (''second_event_id'', VStr ''s4''),
         (''second_event_time'', VTime (4 * us_per_hour)),
         (''second_event_city'', VStr ''B''),
         (''time_between_events_hours'', VNum 0),
         (''min_travel_time_hours'', VNum 2),
         (''distance_km'', VNum 200)]])"
  by (simp add: detect_impossible_travel_def user_impossible_travel_def impossible_travel_pair_def
      group_by_key_def list_or_False_def Let_def directed_transport_def rule_simps
      effective_start_def effective_end_def stay_a_exact_def stay_b_exact_def sample_simps)

section \<open>Claim C7: groups of the individual strategy\<close>

lemma detect_high_value_taxi_single:
  "detect_high_value_taxi [e] ctx \<noteq> None \<longleftrightarrow>
     event_class e = TaxiEvent \<and> \<not> is_self_paid e \<and>
     context_get ctx ''taxi_high_value_threshold'' 50 < amount e"
  by (simp add: detect_high_value_taxi_def Let_def)

text \<open>
  Claim C7. Under the individual strategy every candidate group has exactly one event, an
  event of the filtered input, and there is one group for each event of the filtered
  input. So the guard \<^verbatim>\<open>not events or len(events) != 1\<close> of the individually grouped rules
  is false on every group of the engine: what \<^verbatim>\<open>detect_transport_reverse_time\<close> and
  \<^verbatim>\<open>detect_high_value_taxi\<close> return on it is decided by the event alone.
\<close>

theorem individual_groups_are_singletons:
  assumes "g \<in> set (individual_groups accepts events)"
  shows "length g = 1 \<and> \<not> (g = [] \<or> length g \<noteq> 1) \<and>
         (\<exists>e. g = [e] \<and> e \<in> set events \<and> accepts e \<and>
           (detect_transport_reverse_time T g \<noteq> None \<longleftrightarrow>
              T (event_class e) \<and>
              (\<exists>s t. exact_start_time (time_window e) = Some s \<and>
                     exact_end_time (time_window e) = Some t \<and> t < s)) \<and>
           (detect_high_value_taxi g ctx \<noteq> None \<longleftrightarrow>
              event_class e = TaxiEvent \<and> \<not> is_self_paid e \<and>
              context_get ctx ''taxi_high_value_threshold'' 50 < amount e))
         \<and> length (individual_groups accepts events) = length (filter accepts events)"
proof -
  from assms obtain e where e: "g = [e]" "e \<in> set events" "accepts e"
    by (auto simp: individual_groups_def)
  show ?thesis
    unfolding e(1)
    using e(2,3) detect_transport_reverse_time_single [of T e] detect_high_value_taxi_single [of e ctx]
    by (simp add: individual_groups_def)
qed

theorem individual_groups_are_singletons_witness:
  "individual_groups (\<lambda>e. event_class e = TaxiEvent) [flight_reversed, taxi_80, ride_9_10]
     = [[taxi_80], [ride_9_10]] \<and>
   length [taxi_80] = 1 \<and>
   detect_high_value_taxi [taxi_80] Map.empty \<noteq> None"
proof -
  have g: "individual_groups (\<lambda>e. event_class e = TaxiEvent) [flight_reversed, taxi_80, ride_9_10]
     = [[taxi_80], [ride_9_10]]"
    by (simp add: individual_groups_def flight_reversed_def taxi_80_def ride_9_10_def sample_simps)
  then have m: "[taxi_80] \<in> set (individual_groups (\<lambda>e. event_class e = TaxiEvent) [flight_reversed, taxi_80, ride_9_10])"
    by simp
  have v: "event_class taxi_80 = TaxiEvent \<and> \<not> is_self_paid taxi_80 \<and>
      context_get Map.empty ''taxi_high_value_threshold'' 50 < amount taxi_80"
    by (simp add: taxi_80_def context_get_def sample_simps)
  from individual_groups_are_singletons [OF m, of directed_transport Map.empty] v
  have "detect_high_value_taxi [taxi_80] Map.empty \<noteq> None"
    by auto
  with g show ?thesis by simp
qed

section \<open>Claim C9: the attribute read by the sequential taxi rule\<close>

lemma py_sorted_time_interval:
  "xs \<noteq> [] \<Longrightarrow> py_sorted (\<lambda>e. map_sum id earliest_start (time_interval e)) xs = Inl AttributeError"
  by (cases xs) (simp_all add: py_sorted_def time_interval_def)

lemma user_sequential_patterns_result:
  "snd ue \<noteq> [] \<Longrightarrow>
   user_sequential_patterns rule ctx ue =
     (if of_nat (length (snd ue)) < context_get ctx ''sequential_taxi_min_rides'' 3
      then Inr [] else Inl AttributeError)"
  by (simp add: user_sequential_patterns_def Let_def py_sorted_time_interval)

text \<open>
  Claim C9, as amended. When some user has at least three taxi events in the group, and
  at least as many as the setting \<^verbatim>\<open>sequential_taxi_min_rides\<close> of the context asks for
  (three when it is not set), \<^verbatim>\<open>detect_sequential_taxi_rides\<close> raises \<^verbatim>\<open>AttributeError\<close>: the
  key of the sort reads \<^verbatim>\<open>time_interval\<close>, which no event has.
\<close>

theorem sequential_taxi_rides_raises:
  assumes n: "n = length (filter (\<lambda>e. event_class e = TaxiEvent \<and> user_id e = u) events)"
    and three: "3 \<le> n"
    and rides: "context_get ctx ''sequential_taxi_min_rides'' 3 \<le> of_nat n"
  shows "detect_sequential_taxi_rides rule events ctx = Inl AttributeError"
proof -
  let ?taxi = "filter (\<lambda>e. event_class e = TaxiEvent) events"
  let ?mine = "filter (\<lambda>e. user_id e = u) ?taxi"
  have mine: "?mine = filter (\<lambda>e. event_class e = TaxiEvent \<and> user_id e = u) events"
    by (simp add: conj_commute)
  with n have len: "length ?mine = n" by simp
  have "length ?mine \<le> length ?taxi" by (rule length_filter_le)
  with len three have total: "\<not> length ?taxi < 3" by simp
  from len three have ne: "?mine \<noteq> []" by auto
  then have grp: "(u, ?mine) \<in> set (group_by_key user_id ?taxi)"
    by (simp add: group_by_key_iff)
  have own: "user_sequential_patterns rule ctx (u, ?mine) = Inl AttributeError"
    using user_sequential_patterns_result [of "(u, ?mine)" rule ctx] ne len rides by simp
  have all: "\<forall>x\<in>set (group_by_key user_id ?taxi). \<forall>e.
      user_sequential_patterns rule ctx x = Inl e \<longrightarrow> e = AttributeError"
  proof (intro ballI allI impI)
    fix x e
    assume x: "x \<in> set (group_by_key user_id ?taxi)"
      and e: "user_sequential_patterns rule ctx x = Inl e"
    obtain k vs where kv: "x = (k, vs)" by (cases x)
    with x have "snd x \<noteq> []" by (auto simp: group_by_key_iff)
    from user_sequential_patterns_result [OF this, of rule ctx] e
    show "e = AttributeError" by (auto split: if_splits)
  qed
  have "collect_list (user_sequential_patterns rule ctx) (group_by_key user_id ?taxi) = Inl AttributeError"
    by (rule collect_list_error [OF all]) (use grp own in blast)
  with total show ?thesis
    by (simp add: detect_sequential_taxi_rides_def Let_def)
qed

theorem sequential_taxi_rides_raises_witness:
  "length (filter (\<lambda>e. event_class e = TaxiEvent \<and> user_id e = ''u1'') [ride_9_10, ride_10_11, taxi_80]) = 3 \<and>
   detect_sequential_taxi_rides (table_rule []) [ride_9_10, ride_10_11, taxi_80] Map.empty = Inl AttributeError"
proof -
  have n: "3 = length (filter (\<lambda>e. event_class e = TaxiEvent \<and> user_id e = ''u1'') [ride_9_10, ride_10_11, taxi_80])"
    by (simp add: ride_9_10_def ride_10_11_def taxi_80_def sample_simps)
  have r: "context_get Map.empty ''sequential_taxi_min_rides'' 3 \<le> of_nat 3"
    by (simp add: context_get_def)
  from sequential_taxi_rides_raises [OF n _ r, of "table_rule []"] n
  show ?thesis by simp
qed

text \<open>
  Claim C9, as stated, fails when the context asks for more rides than the user has: with
  \<^verbatim>\<open>sequential_taxi_min_rides\<close> set to five, the user with three taxi events is passed over
  and the rule returns \<^verbatim>\<open>False\<close>.
\<close>

theorem sequential_taxi_rides_min_rides_counterexample:
  "length (filter (\<lambda>e. event_class e = TaxiEvent \<and> user_id e = ''u1'') [ride_9_10, ride_10_11, taxi_80]) = 3 \<and>
   detect_sequential_taxi_rides (table_rule []) [ride_9_10, ride_10_11, taxi_80]
     (Map.empty(''sequential_taxi_min_rides'' \<mapsto> 5)) = Inr None"
  by (simp add: detect_sequential_taxi_rides_def user_sequential_patterns_def group_by_key_def
      list_or_False_def context_get_def Let_def ride_9_10_def ride_10_11_def taxi_80_def sample_simps)

section \<open>Claim C10: the attribute read by the transport explanation\<close>







end
